theory Spec2Isabelle
  imports Complex_Main
begin

section \<open>Python values, exceptions and dictionaries\<close>

text \<open>
  The development embeds \<^verbatim>\<open>albumentations/core/transforms_interface.py\<close> together with
  the two wrapper classes of \<^verbatim>\<open>numpy_core.py\<close> and \<^verbatim>\<open>lists_core.py\<close>.

  Python objects have identity and are mutated in place, and the provenance code depends on
  exactly that, so objects live in an explicit store and a value is either an immediate
  (\<open>None\<close>, a number, a string) or a reference into the store.
\<close>

type_synonym ref = nat

datatype pyval = VNone | VInt int | VReal real | VStr string | VRef ref

text \<open>
  The exceptions the embedded code can raise. \<open>KeyError\<close> carries the missing key.
  \<open>OutOfModel\<close> is not a Python exception: it marks the inputs the embedding does not
  describe (a reference outside the store, iteration over raw pixel data).
\<close>

datatype pyerror =
    ValueError
  | KeyError string
  | AttributeError
  | IndexError
  | TypeError
  | NotImplementedError
  | OutOfModel

text \<open>
  A \<open>dict\<close> with string keys, in insertion order. \<open>dict_set d k v\<close> is \<open>d[k] = v\<close>: an
  existing key keeps its position, a new key goes last. \<open>dict_update d e\<close> is
  \<open>d.update(e)\<close>, and also \<open>dict(d, **e)\<close>.
\<close>

type_synonym 'v pydict = "(string \<times> 'v) list"

fun dict_set :: "'v pydict \<Rightarrow> string \<Rightarrow> 'v \<Rightarrow> 'v pydict" where
  "dict_set [] k v = [(k, v)]"
| "dict_set ((k', v') # d) k v = (if k' = k then (k, v) # d else (k', v') # dict_set d k v)"

fun dict_update :: "'v pydict \<Rightarrow> 'v pydict \<Rightarrow> 'v pydict" where
  "dict_update d [] = d"
| "dict_update d ((k, v) # e) = dict_update (dict_set d k v) e"

text \<open>\<open>{k: kwargs[k] for k in ks}\<close>: the first key missing from \<open>kwargs\<close> raises \<open>KeyError\<close>.\<close>

fun dict_select :: "'v pydict \<Rightarrow> string list \<Rightarrow> 'v pydict \<Rightarrow> pyerror + 'v pydict" where
  "dict_select kwargs [] acc = Inr acc"
| "dict_select kwargs (k # ks) acc =
     (case map_of kwargs k of
        None \<Rightarrow> Inl (KeyError k)
      | Some v \<Rightarrow> dict_select kwargs ks (dict_set acc k v))"

type_synonym params = "pyval pydict"

section \<open>The range-normalisation helper \<open>to_tuple\<close>\<close>

text \<open>
  The argument \<open>param\<close> of \<open>to_tuple\<close>: \<open>None\<close>, a scalar (\<open>int\<close> or \<open>float\<close>, read as the
  number it denotes), a list or tuple of numbers, or anything else. The result is \<open>None\<close>
  (for \<open>param = None\<close>) or a tuple, written as the list of its components.
\<close>

datatype tparam = TNone | TScalar real | TSeq "real list" | TOther

definition to_tuple :: "tparam \<Rightarrow> real option \<Rightarrow> real option \<Rightarrow> pyerror + real list option" where
  "to_tuple param low bias =
     (if low \<noteq> None \<and> bias \<noteq> None then Inl ValueError
      else if param = TNone then Inr None
      else
        case (case param of
                TScalar x \<Rightarrow>
                  (case low of
                     None \<Rightarrow> Inr [- x, x]
                   | Some l \<Rightarrow> Inr (if l < x then [l, x] else [x, l]))
              | TSeq xs \<Rightarrow> Inr xs
              | _ \<Rightarrow> Inl ValueError) of
          Inl e \<Rightarrow> Inl e
        | Inr tup \<Rightarrow>
            (case bias of
               Some b \<Rightarrow> Inr (Some (map (\<lambda>x. b + x) tup))
             | None \<Rightarrow> Inr (Some tup)))"

section \<open>Objects and the store\<close>

text \<open>
  One entry of a provenance history is the dictionary \<open>{'transform': self, 'params': params}\<close>.
  The transform is recorded by its identity. Every object owns its history list: two
  objects that share one list (two views of one \<open>TransformsArray\<close>) are not described.
\<close>

datatype entry = Entry (entry_transform: nat) (entry_params: params)

text \<open>
  The attribute \<open>transforms\<close> of an object: absent, bound to a list of entries, or bound to
  something without an \<open>append\<close> method (\<open>TransformsArray.__array_finalize__\<close> binds it to
  \<open>None\<close> when the array it views has no history).
\<close>

datatype slot = NoAttr | NotAList | History "entry list"

text \<open>
  What an object holds: pixel data (kept abstract), a sequence of rows of fields (bounding
  boxes, keypoints), or a sequence of values (a list of masks).
\<close>

datatype payload = Pixels "int list" | Rows "pyval list list" | Elems "pyval list"

text \<open>
  The classes \<open>keep_memory\<close> tells apart: \<open>numpy.ndarray\<close>, \<open>list\<close>, the two wrapper classes,
  an instance of any other class that accepts new attributes, and an object of a built-in
  type that does not (a tuple, for example).
\<close>

datatype pyclass = NdArray | PyList | TransformsArray | TransformsList | Instance | Builtin

record pyobj =
  cls :: pyclass
  shape :: "nat list option"
  payload :: payload
  transforms :: slot

type_synonym heap = "pyobj list"

definition deref :: "heap \<Rightarrow> ref \<Rightarrow> pyobj option" where
  "deref h r = (if r < length h then Some (h ! r) else None)"

definition alloc :: "heap \<Rightarrow> pyobj \<Rightarrow> ref \<times> heap" where
  "alloc h ob = (length h, h @ [ob])"

text \<open>\<open>quant.transforms = []\<close> succeeds on an object with an instance dictionary.\<close>

fun accepts_attributes :: "pyclass \<Rightarrow> bool" where
  "accepts_attributes NdArray = False"
| "accepts_attributes PyList = False"
| "accepts_attributes Builtin = False"
| "accepts_attributes c = True"

fun isinstance_ndarray :: "pyclass \<Rightarrow> bool" where
  "isinstance_ndarray NdArray = True"
| "isinstance_ndarray TransformsArray = True"
| "isinstance_ndarray c = False"

fun isinstance_list :: "pyclass \<Rightarrow> bool" where
  "isinstance_list PyList = True"
| "isinstance_list c = False"

text \<open>
  \<open>TransformsArray(quant)\<close> and \<open>TransformsList(quant)\<close> with \<open>transforms=None\<close>: a new object
  over the same content, with an empty history.
\<close>

definition TransformsArray_new :: "pyobj \<Rightarrow> pyobj" where
  "TransformsArray_new ob =
     \<lparr>cls = TransformsArray, shape = shape ob, payload = payload ob, transforms = History []\<rparr>"

definition TransformsList_new :: "pyobj \<Rightarrow> pyobj" where
  "TransformsList_new ob =
     \<lparr>cls = TransformsList, shape = None, payload = payload ob, transforms = History []\<rparr>"

text \<open>A list built by a list comprehension or a list display: a plain \<open>list\<close>.\<close>

definition new_list :: "payload \<Rightarrow> pyobj" where
  "new_list c = \<lparr>cls = PyList, shape = None, payload = c, transforms = NoAttr\<rparr>"

section \<open>Provenance: \<open>keep_memory\<close>\<close>

text \<open>
  The two nested \<open>try\<close> statements of \<open>keep_memory\<close>. The result is the object the local
  variable \<open>quant\<close> is bound to afterwards: the caller's object when it has the attribute or
  accepts it, a wrapper allocated here when it is a plain array or list. An immediate value
  has no attribute, accepts none and is neither an array nor a list, so the
  \<open>AttributeError\<close> is raised again.
\<close>

fun find_history :: "heap \<Rightarrow> pyval \<Rightarrow> (pyerror + pyval) \<times> heap" where
  "find_history h (VRef r) =
     (case deref h r of
        None \<Rightarrow> (Inl OutOfModel, h)
      | Some ob \<Rightarrow>
          (case transforms ob of
             NoAttr \<Rightarrow>
               if accepts_attributes (cls ob)
               then (Inr (VRef r), h[r := ob\<lparr>transforms := History []\<rparr>])
               else if isinstance_ndarray (cls ob)
               then (case alloc h (TransformsArray_new ob) of (w, h') \<Rightarrow> (Inr (VRef w), h'))
               else if isinstance_list (cls ob)
               then (case alloc h (TransformsList_new ob) of (w, h') \<Rightarrow> (Inr (VRef w), h'))
               else (Inl AttributeError, h)
           | _ \<Rightarrow> (Inr (VRef r), h)))"
| "find_history h v = (Inl AttributeError, h)"

text \<open>\<open>quant.transforms.append(e)\<close>.\<close>

fun append_entry :: "heap \<Rightarrow> pyval \<Rightarrow> entry \<Rightarrow> (pyerror + unit) \<times> heap" where
  "append_entry h (VRef r) e =
     (case deref h r of
        None \<Rightarrow> (Inl OutOfModel, h)
      | Some ob \<Rightarrow>
          (case transforms ob of
             History es \<Rightarrow> (Inr (), h[r := ob\<lparr>transforms := History (es @ [e])\<rparr>])
           | _ \<Rightarrow> (Inl AttributeError, h)))"
| "append_entry h v e = (Inl AttributeError, h)"

section \<open>Transforms\<close>

text \<open>
  A method that takes one artifact and keyword parameters and returns an artifact; it may
  raise, and it may change the store.
\<close>

type_synonym pymethod = "heap \<Rightarrow> pyval \<Rightarrow> params \<Rightarrow> (pyerror + pyval) \<times> heap"

text \<open>
  Keyword binding. A call \<open>f(a, **d)\<close> raises \<open>TypeError\<close> (multiple values for an
  argument) when \<open>d\<close> has a key that names a parameter of \<open>f\<close> already bound: \<open>self\<close> of
  a bound method, or the parameter that receives \<open>a\<close>. \<open>collides names d\<close> says that \<open>d\<close>
  has such a key, and \<open>bind_keywords names f\<close> is the call of \<open>f\<close> through this binding.
\<close>

definition collides :: "string list \<Rightarrow> 'v pydict \<Rightarrow> bool" where
  "collides names d = list_ex (\<lambda>k. map_of d k \<noteq> None) names"

definition bind_keywords :: "string list \<Rightarrow> pymethod \<Rightarrow> pymethod" where
  "bind_keywords names f h a ps = (if collides names ps then (Inl TypeError, h) else f h a ps)"

text \<open>
  What \<open>apply_to_bbox\<close> or \<open>apply_to_keypoint\<close> returns: a list, a tuple, or something
  else. The comprehension of \<open>apply_to_bboxes\<close> adds the list \<open>bbox[4:]\<close> to it; a list plus
  a list is a list, a tuple plus a list raises \<open>TypeError\<close>, and the sum with another
  kind of value is not described.
\<close>

datatype seqval = ListVal "pyval list" | TupleVal "pyval list" | OtherVal

text \<open>
  The four classes of the module. A transform object carries its class, its identity
  \<open>tid\<close>, the attributes set by \<open>__init__\<close> (\<open>p\<close>, \<open>always_apply\<close>, \<open>_additional_targets\<close>),
  the optional attributes \<open>interpolation\<close> and \<open>fill_value\<close> that \<open>update_params\<close> probes
  with \<open>hasattr\<close>, and what a concrete subclass supplies by overriding: \<open>apply\<close>,
  \<open>apply_to_bbox\<close>, \<open>apply_to_keypoint\<close> (fields \<open>apply_impl\<close>, \<open>apply_to_bbox_impl\<close>,
  \<open>apply_to_keypoint_impl\<close>), \<open>get_params\<close>, \<open>targets_as_params\<close>,
  \<open>get_params_dependent_on_targets\<close> and \<open>target_dependence\<close>. \<open>get_params\<close> returns a
  dictionary; the random choices a subclass makes there are fixed by the field's value.
  An override keeps the signature of the method it overrides, \<open>(self, img, **params)\<close>,
  \<open>(self, bbox, **params)\<close>, \<open>(self, keypoint, **params)\<close>, as those of \<open>NoOp\<close> do; the
  field is the body, entered with the dictionary bound to \<open>**params\<close>. \<open>apply_to_bbox\<close> and
  \<open>apply_to_keypoint\<close> do not touch the store. The methods that \<open>DualTransform\<close> defines
  are written for every transform; \<open>targets\<close> reaches them only for \<open>DualTransform\<close> and
  \<open>NoOp\<close>.
\<close>

datatype tclass = BasicTransform | DualTransform | ImageOnlyTransform | NoOp

record transform =
  tid :: nat
  tclass :: tclass
  p :: real
  always_apply :: bool
  additional_targets :: "string \<rightharpoonup> string"
  interpolation :: "pyval option"
  fill_value :: "pyval option"
  apply_impl :: pymethod
  apply_to_bbox_impl :: "pyval list \<Rightarrow> params \<Rightarrow> pyerror + seqval"
  apply_to_keypoint_impl :: "pyval list \<Rightarrow> params \<Rightarrow> pyerror + seqval"
  get_params :: params
  targets_as_params :: "string list"
  get_params_dependent_on_targets :: "heap \<Rightarrow> params \<Rightarrow> (pyerror + params) \<times> heap"
  target_dependence :: "string \<rightharpoonup> string list"

text \<open>
  \<open>__init__\<close> of a class that overrides nothing: the inherited bodies raise
  \<open>NotImplementedError\<close>, \<open>get_params\<close> returns \<open>{}\<close>, \<open>targets_as_params\<close> is \<open>[]\<close> and
  \<open>target_dependence\<close> is \<open>{}\<close>.
\<close>

definition new_transform :: "tclass \<Rightarrow> nat \<Rightarrow> bool \<Rightarrow> real \<Rightarrow> transform" where
  "new_transform c i a pr =
     \<lparr>tid = i, tclass = c, p = pr, always_apply = a, additional_targets = Map.empty,
      interpolation = None, fill_value = None,
      apply_impl = (\<lambda>h img ps. (Inl NotImplementedError, h)),
      apply_to_bbox_impl = (\<lambda>bbox ps. Inl NotImplementedError),
      apply_to_keypoint_impl = (\<lambda>keypoint ps. Inl NotImplementedError),
      get_params = [],
      targets_as_params = [],
      get_params_dependent_on_targets = (\<lambda>h ps. (Inl NotImplementedError, h)),
      target_dependence = Map.empty\<rparr>"

text \<open>\<open>add_targets\<close> assigns the attribute \<open>_additional_targets\<close>.\<close>

definition add_targets :: "transform \<Rightarrow> (string \<rightharpoonup> string) \<Rightarrow> transform" where
  "add_targets t m = t\<lparr>additional_targets := m\<rparr>"

text \<open>
  \<open>keep_memory(self, quant, **params)\<close>, as the \<open>_apply\<close> wrappers call it. It returns
  nothing: the object it appended to is known to the caller only when it is the caller's
  own.
\<close>

definition keep_memory :: "transform \<Rightarrow> heap \<Rightarrow> pyval \<Rightarrow> params \<Rightarrow> (pyerror + unit) \<times> heap" where
  "keep_memory t h quant ps =
     (if collides [''self'', ''quant''] ps then (Inl TypeError, h)
      else case find_history h quant of
             (Inl e, h1) \<Rightarrow> (Inl e, h1)
           | (Inr q, h1) \<Rightarrow> append_entry h1 q (Entry (tid t) ps))"

text \<open>
  \<open>apply(self, img, **params)\<close>, \<open>apply_to_bbox(self, bbox, **params)\<close> and
  \<open>apply_to_keypoint(self, keypoint, **params)\<close>, called with a keyword dictionary: \<open>NoOp\<close>
  returns its argument.
\<close>

definition apply' :: "transform \<Rightarrow> pymethod" where
  "apply' t h img ps =
     (if collides [''self'', ''img''] ps then (Inl TypeError, h)
      else case tclass t of NoOp \<Rightarrow> (Inr img, h) | _ \<Rightarrow> apply_impl t h img ps)"

definition apply_to_bbox :: "transform \<Rightarrow> pyval list \<Rightarrow> params \<Rightarrow> pyerror + seqval" where
  "apply_to_bbox t bbox ps =
     (if collides [''self'', ''bbox''] ps then Inl TypeError
      else case tclass t of NoOp \<Rightarrow> Inr (ListVal bbox) | _ \<Rightarrow> apply_to_bbox_impl t bbox ps)"

definition apply_to_keypoint :: "transform \<Rightarrow> pyval list \<Rightarrow> params \<Rightarrow> pyerror + seqval" where
  "apply_to_keypoint t keypoint ps =
     (if collides [''self'', ''keypoint''] ps then Inl TypeError
      else case tclass t of
             NoOp \<Rightarrow> Inr (ListVal keypoint)
           | _ \<Rightarrow> apply_to_keypoint_impl t keypoint ps)"

text \<open>\<open>_apply(self, quant, *args, **kwargs)\<close>, called with a keyword dictionary.\<close>

definition apply_priv :: "transform \<Rightarrow> pymethod" where
  "apply_priv t h quant ps =
     (if collides [''self'', ''quant''] ps then (Inl TypeError, h)
      else case keep_memory t h quant ps of
             (Inl e, h1) \<Rightarrow> (Inl e, h1)
           | (Inr u, h1) \<Rightarrow> apply' t h1 quant ps)"

subsection \<open>Bounding boxes and keypoints\<close>

text \<open>
  \<open>for bbox in bboxes\<close> over a sequence of rows. \<open>None\<close> and numbers are not iterable.
\<close>

fun iter_rows :: "heap \<Rightarrow> pyval \<Rightarrow> pyerror + pyval list list" where
  "iter_rows h (VRef r) =
     (case deref h r of
        None \<Rightarrow> Inl OutOfModel
      | Some ob \<Rightarrow>
          (case payload ob of
             Rows rows \<Rightarrow> Inr rows
           | Elems [] \<Rightarrow> Inr []
           | _ \<Rightarrow> Inl OutOfModel))"
| "iter_rows h (VStr s) = Inl OutOfModel"
| "iter_rows h v = Inl TypeError"

text \<open>
  \<open>[f(bbox[:4], **params) + bbox[4:] for bbox in bboxes]\<close>, where every \<open>bbox\<close> has been
  copied into a list; an exception of \<open>f\<close> or of the sum ends the comprehension.
\<close>

fun transform_rows ::
  "(pyval list \<Rightarrow> params \<Rightarrow> pyerror + seqval) \<Rightarrow> pyval list list \<Rightarrow> params
    \<Rightarrow> pyerror + pyval list list" where
  "transform_rows f [] ps = Inr []"
| "transform_rows f (bbox # rest) ps =
     (case f (take 4 bbox) ps of
        Inl e \<Rightarrow> Inl e
      | Inr (TupleVal xs) \<Rightarrow> Inl TypeError
      | Inr OtherVal \<Rightarrow> Inl OutOfModel
      | Inr (ListVal head) \<Rightarrow>
          (case transform_rows f rest ps of
             Inl e \<Rightarrow> Inl e
           | Inr out \<Rightarrow> Inr ((head @ drop 4 bbox) # out)))"

text \<open>
  \<open>apply_to_bboxes(self, bboxes, **params)\<close> and \<open>apply_to_keypoints(self, keypoints,
  **params)\<close>, entered with the list and the dictionary bound to \<open>**params\<close>.
\<close>

definition apply_to_bboxes :: "transform \<Rightarrow> pymethod" where
  "apply_to_bboxes t h bboxes ps =
     (case iter_rows h bboxes of
        Inl e \<Rightarrow> (Inl e, h)
      | Inr rows \<Rightarrow>
          (case transform_rows (apply_to_bbox t) rows ps of
             Inl e \<Rightarrow> (Inl e, h)
           | Inr out \<Rightarrow> (case alloc h (new_list (Rows out)) of (r, h1) \<Rightarrow> (Inr (VRef r), h1))))"

definition apply_to_keypoints :: "transform \<Rightarrow> pymethod" where
  "apply_to_keypoints t h keypoints ps =
     (case iter_rows h keypoints of
        Inl e \<Rightarrow> (Inl e, h)
      | Inr rows \<Rightarrow>
          (case transform_rows (apply_to_keypoint t) rows ps of
             Inl e \<Rightarrow> (Inl e, h)
           | Inr out \<Rightarrow> (case alloc h (new_list (Rows out)) of (r, h1) \<Rightarrow> (Inr (VRef r), h1))))"

text \<open>
  \<open>_apply_to_bboxes(self, bboxes, **params)\<close> and \<open>_apply_to_keypoints(self, keypoints,
  **params)\<close>, called with a keyword dictionary.
\<close>

definition apply_to_bboxes_priv :: "transform \<Rightarrow> pymethod" where
  "apply_to_bboxes_priv t h bboxes ps =
     (if collides [''self'', ''bboxes''] ps then (Inl TypeError, h)
      else case keep_memory t h bboxes ps of
             (Inl e, h1) \<Rightarrow> (Inl e, h1)
           | (Inr u, h1) \<Rightarrow> apply_to_bboxes t h1 bboxes ps)"

definition apply_to_keypoints_priv :: "transform \<Rightarrow> pymethod" where
  "apply_to_keypoints_priv t h keypoints ps =
     (if collides [''self'', ''keypoints''] ps then (Inl TypeError, h)
      else case keep_memory t h keypoints ps of
             (Inl e, h1) \<Rightarrow> (Inl e, h1)
           | (Inr u, h1) \<Rightarrow> apply_to_keypoints t h1 keypoints ps)"

subsection \<open>Masks\<close>

text \<open>\<open>cv2.INTER_NEAREST\<close>, the interpolation flag of OpenCV with the value 0.\<close>

definition INTER_NEAREST :: pyval where
  "INTER_NEAREST = VInt 0"

text \<open>
  \<open>apply_to_mask(self, img, **params)\<close>, called with a keyword dictionary. It calls
  \<open>apply\<close> with
  \<open>{k: cv2.INTER_NEAREST if k == 'interpolation' else v for k, v in params.items()}\<close>;
  \<open>NoOp\<close> overrides it and returns the mask.
\<close>

definition apply_to_mask :: "transform \<Rightarrow> pymethod" where
  "apply_to_mask t h img ps =
     (if collides [''self'', ''img''] ps then (Inl TypeError, h)
      else case tclass t of
             NoOp \<Rightarrow> (Inr img, h)
           | _ \<Rightarrow> apply' t h img
                    (map (\<lambda>(k, v). (k, if k = ''interpolation'' then INTER_NEAREST else v)) ps))"

text \<open>\<open>for mask in masks\<close> over a sequence of values.\<close>

fun iter_elems :: "heap \<Rightarrow> pyval \<Rightarrow> pyerror + pyval list" where
  "iter_elems h (VRef r) =
     (case deref h r of
        None \<Rightarrow> Inl OutOfModel
      | Some ob \<Rightarrow>
          (case payload ob of
             Elems vs \<Rightarrow> Inr vs
           | Rows [] \<Rightarrow> Inr []
           | _ \<Rightarrow> Inl OutOfModel))"
| "iter_elems h (VStr s) = Inl OutOfModel"
| "iter_elems h v = Inl TypeError"

text \<open>\<open>[self.apply_to_mask(mask, **params) for mask in masks]\<close>, element by element.\<close>

fun masks_loop :: "transform \<Rightarrow> heap \<Rightarrow> pyval list \<Rightarrow> params \<Rightarrow> (pyerror + pyval list) \<times> heap" where
  "masks_loop t h [] ps = (Inr [], h)"
| "masks_loop t h (msk # rest) ps =
     (case apply_to_mask t h msk ps of
        (Inl e, h1) \<Rightarrow> (Inl e, h1)
      | (Inr v, h1) \<Rightarrow>
          (case masks_loop t h1 rest ps of
             (Inl e, h2) \<Rightarrow> (Inl e, h2)
           | (Inr vs, h2) \<Rightarrow> (Inr (v # vs), h2)))"

text \<open>
  \<open>apply_to_masks(self, masks, **params)\<close>, entered with the list and the dictionary bound
  to \<open>**params\<close>.
\<close>

definition apply_to_masks :: "transform \<Rightarrow> pymethod" where
  "apply_to_masks t h masks ps =
     (case iter_elems h masks of
        Inl e \<Rightarrow> (Inl e, h)
      | Inr ms \<Rightarrow>
          (case masks_loop t h ms ps of
             (Inl e, h1) \<Rightarrow> (Inl e, h1)
           | (Inr vs, h1) \<Rightarrow>
               (case alloc h1 (new_list (Elems vs)) of (r, h2) \<Rightarrow> (Inr (VRef r), h2))))"

text \<open>\<open>_apply_to_mask(self, mask, **params)\<close>, called with a keyword dictionary.\<close>

definition apply_to_mask_priv :: "transform \<Rightarrow> pymethod" where
  "apply_to_mask_priv t h msk ps =
     (if collides [''self'', ''mask''] ps then (Inl TypeError, h)
      else case keep_memory t h msk ps of
             (Inl e, h1) \<Rightarrow> (Inl e, h1)
           | (Inr u, h1) \<Rightarrow> apply_to_mask t h1 msk ps)"

subsection \<open>The target router\<close>

text \<open>
  The property \<open>targets\<close>: abstract in \<open>BasicTransform\<close>, five entries in \<open>DualTransform\<close>
  (inherited by \<open>NoOp\<close>), one entry in \<open>ImageOnlyTransform\<close>. An entry is the bound method
  as \<open>__call__\<close> calls it, with a keyword dictionary; the entry for \<open>masks\<close> is
  \<open>apply_to_masks\<close> itself, so its keywords are bound here.
\<close>

definition targets :: "transform \<Rightarrow> pyerror + (string \<rightharpoonup> pymethod)" where
  "targets t =
     (case tclass t of
        BasicTransform \<Rightarrow> Inl NotImplementedError
      | ImageOnlyTransform \<Rightarrow> Inr (map_of [(''image'', apply' t)])
      | _ \<Rightarrow>
          Inr (map_of
            [(''image'', apply_priv t),
             (''mask'', apply_to_mask_priv t),
             (''masks'', bind_keywords [''self'', ''masks''] (apply_to_masks t)),
             (''bboxes'', apply_to_bboxes_priv t),
             (''keypoints'', apply_to_keypoints_priv t)]))"

text \<open>
  \<open>_get_target_function\<close>; the default of \<open>targets.get\<close> is \<open>lambda x, **p: x\<close>, which is
  not a bound method and has the one named parameter \<open>x\<close>.
\<close>

definition get_target_function :: "transform \<Rightarrow> string \<Rightarrow> pyerror + pymethod" where
  "get_target_function t key =
     (let transform_key = (case additional_targets t key of Some c \<Rightarrow> c | None \<Rightarrow> key)
      in case targets t of
           Inl e \<Rightarrow> Inl e
         | Inr m \<Rightarrow>
             Inr (case m transform_key of
                    Some f \<Rightarrow> f
                  | None \<Rightarrow> bind_keywords [''x''] (\<lambda>h x ps. (Inr x, h))))"

subsection \<open>Parameters and invocation\<close>

text \<open>
  \<open>update_params(self, params, **kwargs)\<close>, as \<open>__call__\<close> calls it: the bundle is the
  keyword dictionary of the call, so a bundle key \<open>params\<close> or \<open>self\<close> raises \<open>TypeError\<close>
  before the body runs. In the body the dictionary display is evaluated before
  \<open>params.update\<close> runs, and in it \<open>kwargs['image']\<close> comes first: \<open>KeyError\<close> without the
  key, \<open>AttributeError\<close> when the value has no \<open>shape\<close>, \<open>IndexError\<close> when the shape has
  fewer than two entries.
\<close>

definition update_params :: "transform \<Rightarrow> heap \<Rightarrow> params \<Rightarrow> pyval pydict \<Rightarrow> pyerror + params" where
  "update_params t h params kwargs =
     (if collides [''self'', ''params''] kwargs then Inl TypeError
      else
        let params1 = (case interpolation t of
                         Some v \<Rightarrow> dict_set params ''interpolation'' v
                       | None \<Rightarrow> params);
            params2 = (case fill_value t of
                         Some v \<Rightarrow> dict_set params1 ''fill_value'' v
                       | None \<Rightarrow> params1)
        in case map_of kwargs ''image'' of
             None \<Rightarrow> Inl (KeyError ''image'')
           | Some (VRef r) \<Rightarrow>
               (case deref h r of
                  None \<Rightarrow> Inl OutOfModel
                | Some ob \<Rightarrow>
                    (case shape ob of
                       None \<Rightarrow> Inl AttributeError
                     | Some sh \<Rightarrow>
                         if length sh < 2 then Inl IndexError
                         else Inr (dict_update params2
                                [(''cols'', VInt (int (sh ! 1))), (''rows'', VInt (int (sh ! 0)))])))
           | Some v \<Rightarrow> Inl AttributeError)"

text \<open>
  The parameters of one invocation, lines 56 to 61 of \<open>__call__\<close>: \<open>get_params\<close>,
  \<open>update_params\<close> and, when \<open>targets_as_params\<close> is not empty, the parameters that depend
  on the targets.
\<close>

definition shared_params :: "transform \<Rightarrow> heap \<Rightarrow> pyval pydict \<Rightarrow> (pyerror + params) \<times> heap" where
  "shared_params t h kwargs =
     (case update_params t h (get_params t) kwargs of
        Inl e \<Rightarrow> (Inl e, h)
      | Inr params \<Rightarrow>
          if targets_as_params t \<noteq> [] then
            (case dict_select kwargs (targets_as_params t) [] of
               Inl e \<Rightarrow> (Inl e, h)
             | Inr tp \<Rightarrow>
                 (case get_params_dependent_on_targets t h tp of
                    (Inl e, h1) \<Rightarrow> (Inl e, h1)
                  | (Inr dp, h1) \<Rightarrow> (Inr (dict_update params dp), h1)))
          else (Inr params, h))"

text \<open>
  The loop of \<open>__call__\<close> over \<open>kwargs.items()\<close>, with the result dictionary \<open>res\<close> built so
  far. The dependencies of a key are looked up under the key as given, not under its
  canonical name.
\<close>

fun call_loop ::
  "transform \<Rightarrow> pyval pydict \<Rightarrow> params \<Rightarrow> pyval pydict \<Rightarrow> pyval pydict \<Rightarrow> heap
    \<Rightarrow> (pyerror + pyval pydict) \<times> heap" where
  "call_loop t kwargs params [] res h = (Inr res, h)"
| "call_loop t kwargs params ((key, arg) # items) res h =
     (if arg \<noteq> VNone then
        (case get_target_function t key of
           Inl e \<Rightarrow> (Inl e, h)
         | Inr target_function \<Rightarrow>
             (case dict_select kwargs (case target_dependence t key of Some ks \<Rightarrow> ks | None \<Rightarrow> []) [] of
                Inl e \<Rightarrow> (Inl e, h)
              | Inr target_dependencies \<Rightarrow>
                  (case target_function h arg (dict_update params target_dependencies) of
                     (Inl e, h1) \<Rightarrow> (Inl e, h1)
                   | (Inr v, h1) \<Rightarrow> call_loop t kwargs params items (dict_set res key v) h1)))
      else call_loop t kwargs params items (dict_set res key VNone) h)"

text \<open>
  \<open>__call__(self, force_apply=False, **kwargs)\<close>, entered with \<open>force_apply\<close> and the
  dictionary bound to \<open>**kwargs\<close>. The argument \<open>r\<close> is the value \<open>random.random()\<close>
  returns, a number in \<open>[0, 1)\<close>; it is drawn before the two flags are looked at.
\<close>

definition call ::
  "transform \<Rightarrow> real \<Rightarrow> bool \<Rightarrow> pyval pydict \<Rightarrow> heap \<Rightarrow> (pyerror + pyval pydict) \<times> heap" where
  "call t r force_apply kwargs h =
     (if r < p t \<or> always_apply t \<or> force_apply then
        (case shared_params t h kwargs of
           (Inl e, h1) \<Rightarrow> (Inl e, h1)
         | (Inr params, h1) \<Rightarrow> call_loop t kwargs params kwargs [] h1)
      else (Inr kwargs, h))"

text \<open>
  A caller that invokes the transform once per draw of \<open>rs\<close>, each time on the bundle the
  previous call returned, and stops at the first exception.
\<close>

fun call_repeatedly ::
  "transform \<Rightarrow> real list \<Rightarrow> bool \<Rightarrow> pyval pydict \<Rightarrow> heap \<Rightarrow> (pyerror + pyval pydict) \<times> heap" where
  "call_repeatedly t [] force_apply kwargs h = (Inr kwargs, h)"
| "call_repeatedly t (r # rs) force_apply kwargs h =
     (case call t r force_apply kwargs h of
        (Inl e, h1) \<Rightarrow> (Inl e, h1)
      | (Inr res, h1) \<Rightarrow> call_repeatedly t rs force_apply res h1)"

text \<open>Whether a primitive returned a list, and the list it returned.\<close>

definition returns_list :: "pyerror + seqval \<Rightarrow> bool" where
  "returns_list res = (case res of Inr (ListVal xs) \<Rightarrow> True | _ \<Rightarrow> False)"

definition the_list :: "pyerror + seqval \<Rightarrow> pyval list" where
  "the_list res = (case res of Inr (ListVal xs) \<Rightarrow> xs | _ \<Rightarrow> [])"

section \<open>Properties of the helper and of the inactive call\<close>

text \<open>
  \<^bold>\<open>C9\<close>: \<open>to_tuple(5)\<close> is \<open>(-5, 5)\<close>; \<open>to_tuple(5, low=2)\<close> is \<open>(2, 5)\<close>;
  \<open>to_tuple((1, 2))\<close> is \<open>(1, 2)\<close>; \<open>to_tuple(5, bias=1)\<close> is \<open>(-4, 6)\<close>; and for every
  \<open>param\<close>, a call that supplies both \<open>low\<close> and \<open>bias\<close> raises \<open>ValueError\<close>, the
  exception the specification calls \<open>InvalidArgument\<close>.
\<close>

theorem to_tuple_examples:
  "to_tuple (TScalar 5) None None = Inr (Some [-5, 5])
   \<and> to_tuple (TScalar 5) (Some 2) None = Inr (Some [2, 5])
   \<and> to_tuple (TSeq [1, 2]) None None = Inr (Some [1, 2])
   \<and> to_tuple (TScalar 5) None (Some 1) = Inr (Some [-4, 6])
   \<and> (\<forall>param low bias. to_tuple param (Some low) (Some bias) = Inl ValueError)"
  by (simp add: to_tuple_def)

text \<open>
  \<^bold>\<open>C3\<close>: a transform with \<open>p = 0\<close> and \<open>always_apply = False\<close>, called with
  \<open>force_apply = False\<close> any number of times (every draw of \<open>random.random()\<close> is at least
  0), returns the bundle it was given and leaves the store as it was: nothing is
  replaced and no history is touched.
\<close>

theorem zero_probability_is_identity:
  assumes "p t = 0" and "\<not> always_apply t" and "list_all (\<lambda>r. 0 \<le> r) rs"
  shows "call_repeatedly t rs False kwargs h = (Inr kwargs, h)"
  using assms by (induction rs) (simp_all add: call_def)

theorem zero_probability_is_identity_witness:
  "call_repeatedly (new_transform NoOp 7 False 0) [0, 0.25, 0.999] False [(''image'', VRef 0)]
     [\<lparr>cls = NdArray, shape = Some [4, 6], payload = Pixels [1, 2], transforms = NoAttr\<rparr>]
   = (Inr [(''image'', VRef 0)],
      [\<lparr>cls = NdArray, shape = Some [4, 6], payload = Pixels [1, 2], transforms = NoAttr\<rparr>])"
  by (rule zero_probability_is_identity) (simp_all add: new_transform_def)

section \<open>The missing raster\<close>

text \<open>
  \<^bold>\<open>C6\<close>, as stated, fails: \<open>NoOp(always_apply=True)(params=5)\<close> is an active call on a
  bundle without the key \<open>image\<close>, and it raises \<open>TypeError\<close>, not \<open>KeyError('image')\<close>:
  \<open>__call__\<close> passes the bundle to \<open>update_params(self, params, **kwargs)\<close> as keywords, and
  the bundle key \<open>params\<close> meets the parameter of that name.
\<close>

theorem bundle_key_params_is_a_TypeError:
  "call (new_transform NoOp 7 True (1 / 2)) (9 / 10) False [(''params'', VInt 5)] []
   = (Inl TypeError, [])"
  by (simp add: call_def shared_params_def update_params_def collides_def new_transform_def)

text \<open>
  \<^bold>\<open>C6\<close>, amended: an active call (the draw is below \<open>p\<close>, or \<open>always_apply\<close>, or
  \<open>force_apply\<close>) on a bundle that has no key \<open>image\<close> and no key named like a parameter of
  \<open>update_params\<close> (\<open>self\<close>, \<open>params\<close>) raises \<open>KeyError('image')\<close>, the condition the
  specification calls \<open>MissingRequiredArtifact\<close>; the store is as before the call, so no
  artifact has been transformed or recorded on.
\<close>

theorem missing_image:
  assumes "r < p t \<or> always_apply t \<or> force_apply" and "map_of kwargs ''image'' = None"
    and "\<not> collides [''self'', ''params''] kwargs"
  shows "call t r force_apply kwargs h = (Inl (KeyError ''image''), h)"
  using assms by (simp add: call_def shared_params_def update_params_def Let_def)

theorem missing_image_witness:
  "call (new_transform NoOp 7 True (1 / 2)) (9 / 10) False [(''bboxes'', VRef 0)]
     [\<lparr>cls = PyList, shape = None, payload = Rows [[VInt 1, VInt 2, VInt 3, VInt 4]],
       transforms = NoAttr\<rparr>]
   = (Inl (KeyError ''image''),
     [\<lparr>cls = PyList, shape = None, payload = Rows [[VInt 1, VInt 2, VInt 3, VInt 4]],
       transforms = NoAttr\<rparr>])"
  by (rule missing_image) (simp_all add: new_transform_def collides_def)

section \<open>Bounding boxes and keypoints: heads and tails\<close>

lemma transform_rows_total:
  "list_all (\<lambda>row. returns_list (f (take 4 row) ps)) rows \<Longrightarrow>
   transform_rows f rows ps = Inr (map (\<lambda>row. the_list (f (take 4 row) ps) @ drop 4 row) rows)"
  by (induction rows) (auto simp: returns_list_def the_list_def split: sum.splits seqval.splits)

lemma returns_list_eq: "returns_list res \<Longrightarrow> res = Inr (ListVal (the_list res))"
  by (auto simp: returns_list_def the_list_def split: sum.splits seqval.splits)

lemma rows_result:
  assumes "deref h r = Some ob" and "payload ob = Rows rows"
    and "list_all (\<lambda>row. returns_list (f (take 4 row) ps)) rows"
  shows "\<exists>out. (case iter_rows h (VRef r) of
                 Inl e \<Rightarrow> (Inl e, h)
               | Inr rs \<Rightarrow>
                   (case transform_rows f rs ps of
                      Inl e \<Rightarrow> (Inl e, h)
                    | Inr out \<Rightarrow> (case alloc h (new_list (Rows out)) of (r, h1) \<Rightarrow> (Inr (VRef r), h1))))
               = (Inr (VRef (length h)), h @ [new_list (Rows out)])
            \<and> length out = length rows
            \<and> (\<forall>i<length rows. f (take 4 (rows ! i)) ps
                     = Inr (ListVal (the_list (f (take 4 (rows ! i)) ps)))
                  \<and> out ! i = the_list (f (take 4 (rows ! i)) ps) @ drop 4 (rows ! i))"
proof -
  let ?out = "map (\<lambda>row. the_list (f (take 4 row) ps) @ drop 4 row) rows"
  have "transform_rows f rows ps = Inr ?out"
    using assms(3) by (rule transform_rows_total)
  moreover have "f (take 4 (rows ! i)) ps = Inr (ListVal (the_list (f (take 4 (rows ! i)) ps)))"
    if "i < length rows" for i
    using assms(3) that by (intro returns_list_eq) (simp add: list_all_length)
  ultimately show ?thesis
    using assms(1,2) by (intro exI[where x = ?out]) (simp add: alloc_def)
qed

text \<open>
  \<^bold>\<open>C4\<close>, as stated, fails: \<open>DualTransform\<close> itself leaves \<open>apply_to_bbox\<close> abstract, and
  \<open>apply_to_bboxes\<close> on a list of one box raises \<open>NotImplementedError\<close> instead of
  returning a list.
\<close>

theorem abstract_apply_to_bbox_raises:
  "apply_to_bboxes (new_transform DualTransform 3 False (1 / 2))
     [\<lparr>cls = PyList, shape = None, payload = Rows [[VInt 1, VInt 2, VInt 3, VInt 4, VStr ''cat'']],
       transforms = NoAttr\<rparr>]
     (VRef 0) []
   = (Inl NotImplementedError,
      [\<lparr>cls = PyList, shape = None, payload = Rows [[VInt 1, VInt 2, VInt 3, VInt 4, VStr ''cat'']],
        transforms = NoAttr\<rparr>])"
  by (simp add: apply_to_bboxes_def deref_def apply_to_bbox_def collides_def new_transform_def)

text \<open>
  \<^bold>\<open>C4\<close>, amended: for a list of bounding boxes such that \<open>apply_to_bbox\<close>, given the first
  four fields of each box and the parameters, returns a list (it is implemented, does not
  raise, and its result is a list), \<open>apply_to_bboxes\<close> returns a new list of the same
  length, whose element \<open>i\<close> is that result for box \<open>i\<close> followed by the remaining fields
  of box \<open>i\<close>, unchanged and in order. \<open>apply_to_keypoints\<close> does the same with
  \<open>apply_to_keypoint\<close>.
\<close>

theorem apply_to_bboxes_heads_and_tails:
  assumes "deref h r = Some ob" and "payload ob = Rows rows"
  shows "(list_all (\<lambda>bbox. returns_list (apply_to_bbox t (take 4 bbox) ps)) rows \<longrightarrow>
          (\<exists>out. apply_to_bboxes t h (VRef r) ps = (Inr (VRef (length h)), h @ [new_list (Rows out)])
            \<and> length out = length rows
            \<and> (\<forall>i<length rows. apply_to_bbox t (take 4 (rows ! i)) ps
                     = Inr (ListVal (the_list (apply_to_bbox t (take 4 (rows ! i)) ps)))
                  \<and> out ! i = the_list (apply_to_bbox t (take 4 (rows ! i)) ps) @ drop 4 (rows ! i))))
       \<and> (list_all (\<lambda>keypoint. returns_list (apply_to_keypoint t (take 4 keypoint) ps)) rows \<longrightarrow>
          (\<exists>out. apply_to_keypoints t h (VRef r) ps = (Inr (VRef (length h)), h @ [new_list (Rows out)])
            \<and> length out = length rows
            \<and> (\<forall>i<length rows. apply_to_keypoint t (take 4 (rows ! i)) ps
                     = Inr (ListVal (the_list (apply_to_keypoint t (take 4 (rows ! i)) ps)))
                  \<and> out ! i = the_list (apply_to_keypoint t (take 4 (rows ! i)) ps) @ drop 4 (rows ! i))))"
  unfolding apply_to_bboxes_def apply_to_keypoints_def
  using rows_result[OF assms] by blast

theorem apply_to_bboxes_heads_and_tails_witness:
  "apply_to_bboxes (new_transform NoOp 7 False (1 / 2))
     [\<lparr>cls = PyList, shape = None,
       payload = Rows [[VInt 1, VInt 2, VInt 3, VInt 4, VStr ''cat''],
                       [VInt 5, VInt 6, VInt 7, VInt 8, VInt 9, VStr ''dog'']],
       transforms = NoAttr\<rparr>]
     (VRef 0) []
   = (Inr (VRef 1),
      [\<lparr>cls = PyList, shape = None,
        payload = Rows [[VInt 1, VInt 2, VInt 3, VInt 4, VStr ''cat''],
                        [VInt 5, VInt 6, VInt 7, VInt 8, VInt 9, VStr ''dog'']],
        transforms = NoAttr\<rparr>,
       new_list (Rows [[VInt 1, VInt 2, VInt 3, VInt 4, VStr ''cat''],
                       [VInt 5, VInt 6, VInt 7, VInt 8, VInt 9, VStr ''dog'']])])"
proof -
  let ?rows = "[[VInt 1, VInt 2, VInt 3, VInt 4, VStr ''cat''],
                [VInt 5, VInt 6, VInt 7, VInt 8, VInt 9, VStr ''dog'']]"
  let ?ob = "\<lparr>cls = PyList, shape = None, payload = Rows ?rows, transforms = NoAttr\<rparr>"
  let ?t = "new_transform NoOp 7 False (1 / 2)"
  have d: "deref [?ob] 0 = Some ?ob" by (simp add: deref_def)
  have pl: "payload ?ob = Rows ?rows" by simp
  have ap: "apply_to_bbox ?t bbox [] = Inr (ListVal bbox)" for bbox
    by (simp add: apply_to_bbox_def new_transform_def collides_def)
  have ok: "list_all (\<lambda>bbox. returns_list (apply_to_bbox ?t (take 4 bbox) [])) ?rows"
    by (simp add: ap returns_list_def)
  from apply_to_bboxes_heads_and_tails[OF d pl, of ?t "[]"] ok
  obtain out where res: "apply_to_bboxes ?t [?ob] (VRef 0) []
        = (Inr (VRef (length [?ob])), [?ob] @ [new_list (Rows out)])"
    and len: "length out = length ?rows"
    and el: "\<forall>i<length ?rows. apply_to_bbox ?t (take 4 (?rows ! i)) []
                     = Inr (ListVal (the_list (apply_to_bbox ?t (take 4 (?rows ! i)) [])))
        \<and> out ! i = the_list (apply_to_bbox ?t (take 4 (?rows ! i)) []) @ drop 4 (?rows ! i)"
    by blast
  have "out ! 0 = ?rows ! 0" using el[rule_format, of 0]
    by (simp add: ap the_list_def)
  moreover have "out ! 1 = ?rows ! 1" using el[rule_format, of 1]
    by (simp add: ap the_list_def)
  ultimately have "out = ?rows" using len
    by (intro nth_equalityI) (auto simp: less_Suc_eq numeral_2_eq_2)
  with res show ?thesis by simp
qed

section \<open>Masks: nearest-neighbour interpolation\<close>


lemma dict_set_map_of: "map_of (dict_set d k v) = (map_of d)(k \<mapsto> v)"
  by (induction d) (auto simp: fun_eq_iff)





section \<open>The target router and aliases\<close>

text \<open>Assigning the alias table changes no method of the transform.\<close>

lemma keep_memory_add_targets: "keep_memory (add_targets t a) = keep_memory t"
  by (intro ext) (simp add: keep_memory_def add_targets_def split: prod.splits sum.splits)

lemma apply'_add_targets: "apply' (add_targets t a) = apply' t"
  by (intro ext) (simp add: apply'_def add_targets_def split: tclass.splits)

lemma apply_to_mask_add_targets: "apply_to_mask (add_targets t a) = apply_to_mask t"
  by (intro ext) (simp add: apply_to_mask_def apply'_add_targets split: tclass.splits,
      simp_all add: add_targets_def)

lemma masks_loop_add_targets: "masks_loop (add_targets t a) h ms ps = masks_loop t h ms ps"
  by (induction ms arbitrary: h) (simp_all add: apply_to_mask_add_targets split: prod.splits sum.splits)

lemma targets_add_targets: "targets (add_targets t a) = targets t"
proof -
  have 1: "apply_priv (add_targets t a) = apply_priv t"
    by (intro ext) (simp add: apply_priv_def keep_memory_add_targets apply'_add_targets
        split: prod.splits sum.splits)
  have 2: "apply_to_mask_priv (add_targets t a) = apply_to_mask_priv t"
    by (intro ext) (simp add: apply_to_mask_priv_def keep_memory_add_targets apply_to_mask_add_targets
        split: prod.splits sum.splits)
  have 3: "apply_to_masks (add_targets t a) = apply_to_masks t"
    by (intro ext) (simp add: apply_to_masks_def masks_loop_add_targets split: prod.splits sum.splits)
  have b: "apply_to_bbox (add_targets t a) = apply_to_bbox t"
    by (intro ext) (simp add: apply_to_bbox_def add_targets_def split: tclass.splits)
  have k: "apply_to_keypoint (add_targets t a) = apply_to_keypoint t"
    by (intro ext) (simp add: apply_to_keypoint_def add_targets_def split: tclass.splits)
  have 4: "apply_to_bboxes_priv (add_targets t a) = apply_to_bboxes_priv t"
    by (intro ext) (simp add: apply_to_bboxes_priv_def apply_to_bboxes_def keep_memory_add_targets b
        split: prod.splits sum.splits)
  have 5: "apply_to_keypoints_priv (add_targets t a) = apply_to_keypoints_priv t"
    by (intro ext) (simp add: apply_to_keypoints_priv_def apply_to_keypoints_def keep_memory_add_targets k
        split: prod.splits sum.splits)
  have c: "tclass (add_targets t a) = tclass t" by (simp add: add_targets_def)
  show ?thesis
    unfolding targets_def 1 2 3 4 5 c apply'_add_targets ..
qed

text \<open>The loop over a bundle is the loop over its first part followed by the loop over the rest.\<close>

lemma call_loop_append:
  "call_loop t kwargs params (xs @ ys) res h
     = (case call_loop t kwargs params xs res h of
          (Inl e, h1) \<Rightarrow> (Inl e, h1)
        | (Inr res1, h1) \<Rightarrow> call_loop t kwargs params ys res1 h1)"
  by (induction xs arbitrary: res h) (auto split: sum.splits prod.splits)

lemma call_loop_other_keys:
  "call_loop t kwargs params items res h = (Inr out, h') \<Longrightarrow> key \<notin> fst ` set items
    \<Longrightarrow> map_of out key = map_of res key"
proof (induction items arbitrary: res h)
  case Nil
  then show ?case by simp
next
  case (Cons item items)
  obtain k a where item: "item = (k, a)" by (cases item)
  from Cons.prems(2) item have ne: "k \<noteq> key" and rest: "key \<notin> fst ` set items" by auto
  from Cons.prems(1) item obtain w h1 where "call_loop t kwargs params items (dict_set res k w) h1 = (Inr out, h')"
    by (auto split: if_splits sum.splits prod.splits)
  from Cons.IH[OF this rest] ne show ?case by (simp add: dict_set_map_of)
qed

lemma call_loop_split:
  "items = xs @ ys \<Longrightarrow>
   call_loop t kwargs params items res h
     = (case call_loop t kwargs params xs res h of
          (Inl e, h1) \<Rightarrow> (Inl e, h1)
        | (Inr res1, h1) \<Rightarrow> call_loop t kwargs params ys res1 h1)"
  by (simp only: call_loop_append)

text \<open>
  An active call is the computation of the parameters, the loop over the keys before a
  given one, and the loop from that key on.
\<close>

lemma active_call:
  assumes "r < p t \<or> always_apply t \<or> force_apply" and "kwargs = xs @ ys"
  shows "call t r force_apply kwargs h
     = (case shared_params t h kwargs of
          (Inl e, h0) \<Rightarrow> (Inl e, h0)
        | (Inr params, h0) \<Rightarrow>
            (case call_loop t kwargs params xs [] h0 of
               (Inl e, h1) \<Rightarrow> (Inl e, h1)
             | (Inr res1, h1) \<Rightarrow> call_loop t kwargs params ys res1 h1))"
  using assms(1) by (simp add: call_def call_loop_split[OF assms(2)] split: prod.splits sum.splits)

text \<open>
  \<^bold>\<open>C7\<close>, as stated, fails: after \<open>add_targets({'img2': 'image'})\<close>, an active call on a
  bundle that holds \<open>img2\<close> and no \<open>image\<close> raises \<open>KeyError('image')\<close> before any key is
  routed; nothing is transformed or returned under \<open>img2\<close>. The docstring of \<open>add_targets\<close>
  says that the bundle must hold an object under the key \<open>image\<close>.
\<close>

theorem alias_alone_is_not_routed:
  "call (add_targets (new_transform NoOp 7 True (1 / 2)) [''img2'' \<mapsto> ''image'']) (9 / 10) False
     [(''img2'', VRef 0)]
     [\<lparr>cls = TransformsArray, shape = Some [4, 6], payload = Pixels [3, 4], transforms = History []\<rparr>]
   = (Inl (KeyError ''image''),
     [\<lparr>cls = TransformsArray, shape = Some [4, 6], payload = Pixels [3, 4], transforms = History []\<rparr>])"
  by (simp add: call_def shared_params_def update_params_def collides_def add_targets_def
      new_transform_def)

text \<open>
  \<^bold>\<open>C7\<close>, amended: after \<open>add_targets({'img2': 'image'})\<close> the key \<open>img2\<close> resolves to the
  function \<open>f\<close> that the class binds to \<open>image\<close>. An active call on a bundle that holds a
  non-null artifact \<open>v\<close> under \<open>img2\<close> returns a bundle exactly when the parameters are
  computed (which needs an \<open>image\<close> artifact), the keys before \<open>img2\<close> are processed, the
  dependencies declared for \<open>img2\<close> are in the bundle, \<open>f\<close> applied to \<open>v\<close> itself returns
  a value \<open>w\<close>, and the keys after \<open>img2\<close> are processed; the returned bundle then holds
  \<open>w\<close>, the transform of the \<open>img2\<close> artifact, under \<open>img2\<close>.
\<close>

theorem alias_routes_like_image:
  assumes "targets t = Inr m" and "m ''image'' = Some f"
    and "r < p t \<or> always_apply t \<or> force_apply"
    and "kwargs = earlier @ (''img2'', v) # later" and "''img2'' \<notin> fst ` set later"
    and "v \<noteq> VNone"
  shows "get_target_function (add_targets t [''img2'' \<mapsto> ''image'']) ''img2'' = Inr f
     \<and> (call (add_targets t [''img2'' \<mapsto> ''image'']) r force_apply kwargs h = (Inr out, h') \<longleftrightarrow>
          (\<exists>params h0 res1 h1 deps w h2.
              shared_params (add_targets t [''img2'' \<mapsto> ''image'']) h kwargs = (Inr params, h0)
            \<and> call_loop (add_targets t [''img2'' \<mapsto> ''image'']) kwargs params earlier [] h0
                = (Inr res1, h1)
            \<and> dict_select kwargs (case target_dependence t ''img2'' of Some ks \<Rightarrow> ks | None \<Rightarrow> []) []
                = Inr deps
            \<and> f h1 v (dict_update params deps) = (Inr w, h2)
            \<and> call_loop (add_targets t [''img2'' \<mapsto> ''image'']) kwargs params later
                  (dict_set res1 ''img2'' w) h2 = (Inr out, h')
            \<and> map_of out ''img2'' = Some w))"
proof -
  let ?t = "add_targets t [''img2'' \<mapsto> ''image'']"
  have route: "get_target_function ?t ''img2'' = Inr f"
    using assms(1,2) by (simp add: get_target_function_def targets_add_targets) (simp add: add_targets_def)
  have dep: "target_dependence ?t = target_dependence t" by (simp add: add_targets_def)
  have act: "r < p ?t \<or> always_apply ?t \<or> force_apply"
    using assms(3) by (simp add: add_targets_def)
  have step: "call_loop ?t kwargs params ((''img2'', v) # later) res1 h1
      = (case dict_select kwargs (case target_dependence t ''img2'' of Some ks \<Rightarrow> ks | None \<Rightarrow> []) [] of
           Inl e \<Rightarrow> (Inl e, h1)
         | Inr deps \<Rightarrow>
             (case f h1 v (dict_update params deps) of
                (Inl e, h2) \<Rightarrow> (Inl e, h2)
              | (Inr w, h2) \<Rightarrow> call_loop ?t kwargs params later (dict_set res1 ''img2'' w) h2))"
    for params res1 h1
    using assms(6) by (simp add: route dep)
  have unfold: "call ?t r force_apply kwargs h
      = (case shared_params ?t h kwargs of
           (Inl e, h0) \<Rightarrow> (Inl e, h0)
         | (Inr params, h0) \<Rightarrow>
             (case call_loop ?t kwargs params earlier [] h0 of
                (Inl e, h1) \<Rightarrow> (Inl e, h1)
              | (Inr res1, h1) \<Rightarrow> call_loop ?t kwargs params ((''img2'', v) # later) res1 h1))"
    by (rule active_call[OF act assms(4)])
  have "call ?t r force_apply kwargs h = (Inr out, h') \<longleftrightarrow>
          (\<exists>params h0 res1 h1 deps w h2.
              shared_params ?t h kwargs = (Inr params, h0)
            \<and> call_loop ?t kwargs params earlier [] h0 = (Inr res1, h1)
            \<and> dict_select kwargs (case target_dependence t ''img2'' of Some ks \<Rightarrow> ks | None \<Rightarrow> []) []
                = Inr deps
            \<and> f h1 v (dict_update params deps) = (Inr w, h2)
            \<and> call_loop ?t kwargs params later (dict_set res1 ''img2'' w) h2 = (Inr out, h'))"
    unfolding unfold step by (auto split: sum.splits prod.splits)
  moreover have "map_of out ''img2'' = Some w"
    if "call_loop ?t kwargs params later (dict_set res1 ''img2'' w) h2 = (Inr out, h')"
    for params res1 w h2
    using call_loop_other_keys[OF that assms(5)] by (simp add: dict_set_map_of)
  ultimately show ?thesis using route by blast
qed

theorem alias_routes_like_image_witness:
  "call (add_targets (new_transform NoOp 7 True (1 / 2)) [''img2'' \<mapsto> ''image'']) (9 / 10) False
     [(''image'', VRef 0), (''img2'', VRef 1)]
     [\<lparr>cls = TransformsArray, shape = Some [4, 6], payload = Pixels [1, 2], transforms = History []\<rparr>,
      \<lparr>cls = TransformsArray, shape = Some [4, 6], payload = Pixels [3, 4], transforms = History []\<rparr>]
   = (Inr [(''image'', VRef 0), (''img2'', VRef 1)],
     [\<lparr>cls = TransformsArray, shape = Some [4, 6], payload = Pixels [1, 2],
        transforms = History [Entry 7 [(''cols'', VInt 6), (''rows'', VInt 4)]]\<rparr>,
      \<lparr>cls = TransformsArray, shape = Some [4, 6], payload = Pixels [3, 4],
        transforms = History [Entry 7 [(''cols'', VInt 6), (''rows'', VInt 4)]]\<rparr>])"
proof -
  let ?t = "new_transform NoOp 7 True (1 / 2)"
  let ?kw = "[(''image'', VRef 0), (''img2'', VRef 1)]"
  let ?e = "Entry 7 [(''cols'', VInt 6), (''rows'', VInt 4)]"
  let ?a = "\<lparr>cls = TransformsArray, shape = Some [4, 6], payload = Pixels [1, 2], transforms = History []\<rparr>"
  let ?b = "\<lparr>cls = TransformsArray, shape = Some [4, 6], payload = Pixels [3, 4], transforms = History []\<rparr>"
  have tg: "targets ?t = Inr (map_of
            [(''image'', apply_priv ?t),
             (''mask'', apply_to_mask_priv ?t),
             (''masks'', bind_keywords [''self'', ''masks''] (apply_to_masks ?t)),
             (''bboxes'', apply_to_bboxes_priv ?t),
             (''keypoints'', apply_to_keypoints_priv ?t)])"
    by (simp add: targets_def new_transform_def)
  have im: "map_of
            [(''image'', apply_priv ?t),
             (''mask'', apply_to_mask_priv ?t),
             (''masks'', bind_keywords [''self'', ''masks''] (apply_to_masks ?t)),
             (''bboxes'', apply_to_bboxes_priv ?t),
             (''keypoints'', apply_to_keypoints_priv ?t)] ''image'' = Some (apply_priv ?t)"
    by simp
  have act: "9 / 10 < p ?t \<or> always_apply ?t \<or> False" by (simp add: new_transform_def)
  have sp: "?kw = [(''image'', VRef 0)] @ (''img2'', VRef 1) # []" by simp
  have notin: "''img2'' \<notin> fst ` set []" by simp
  have nn: "VRef 1 \<noteq> VNone" by simp
  note inst = alias_routes_like_image[OF tg im act sp notin nn, THEN conjunct2]
  let ?a1 = "\<lparr>cls = TransformsArray, shape = Some [4, 6], payload = Pixels [1, 2],
        transforms = History [?e]\<rparr>"
  let ?b1 = "\<lparr>cls = TransformsArray, shape = Some [4, 6], payload = Pixels [3, 4],
        transforms = History [?e]\<rparr>"
  let ?ps = "[(''cols'', VInt 6), (''rows'', VInt 4)]"
  let ?t' = "add_targets ?t [''img2'' \<mapsto> ''image'']"
  have c1: "shared_params ?t' [?a, ?b] ?kw = (Inr ?ps, [?a, ?b])"
    by (simp add: shared_params_def update_params_def collides_def deref_def add_targets_def
        new_transform_def)
  have c2: "call_loop ?t' ?kw ?ps [(''image'', VRef 0)] [] [?a, ?b] = (Inr [(''image'', VRef 0)], [?a1, ?b])"
    by (simp add: get_target_function_def targets_def apply_priv_def keep_memory_def deref_def
        apply'_def collides_def add_targets_def new_transform_def)
  have c3: "dict_select ?kw (case target_dependence ?t ''img2'' of Some ks \<Rightarrow> ks | None \<Rightarrow> []) [] = Inr []"
    by (simp add: new_transform_def)
  have c4: "apply_priv ?t [?a1, ?b] (VRef 1) (dict_update ?ps []) = (Inr (VRef 1), [?a1, ?b1])"
    by (simp add: apply_priv_def keep_memory_def deref_def apply'_def collides_def new_transform_def)
  have c5: "call_loop ?t' ?kw ?ps [] (dict_set [(''image'', VRef 0)] ''img2'' (VRef 1)) [?a1, ?b1]
      = (Inr [(''image'', VRef 0), (''img2'', VRef 1)], [?a1, ?b1])"
    by simp
  have c6: "map_of [(''image'', VRef 0), (''img2'', VRef 1)] ''img2'' = Some (VRef 1)"
    by simp
  show ?thesis
    by (rule iffD2[OF inst]) (use c1 c2 c3 c4 c5 c6 in blast)
qed

text \<open>
  \<^bold>\<open>C10\<close>: \<open>add_targets\<close> replaces the alias table. After \<open>add_targets(m1)\<close> and then
  \<open>add_targets(m2)\<close> the transform is the one \<open>add_targets(m2)\<close> alone gives, its table is
  \<open>m2\<close>, and a key that \<open>m2\<close> does not alias is routed as on a transform with an empty
  table, whatever \<open>m1\<close> said about it.
\<close>

theorem add_targets_replaces:
  "add_targets (add_targets t m1) m2 = add_targets t m2
   \<and> additional_targets (add_targets (add_targets t m1) m2) = m2
   \<and> (m2 k = None \<longrightarrow>
        get_target_function (add_targets (add_targets t m1) m2) k
          = get_target_function (add_targets t Map.empty) k)"
  by (simp add: add_targets_def get_target_function_def targets_add_targets[unfolded add_targets_def])

theorem add_targets_replaces_witness:
  "additional_targets
     (add_targets (add_targets (new_transform NoOp 7 False (1 / 2)) [''img2'' \<mapsto> ''image''])
        [''m2'' \<mapsto> ''mask''])
     = [''m2'' \<mapsto> ''mask'']
   \<and> get_target_function
     (add_targets (add_targets (new_transform NoOp 7 False (1 / 2)) [''img2'' \<mapsto> ''image''])
        [''m2'' \<mapsto> ''mask''])
     ''img2''
     = Inr (bind_keywords [''x''] (\<lambda>h x ps. (Inr x, h)))"
proof -
  have "get_target_function (add_targets (new_transform NoOp 7 False (1 / 2)) Map.empty) ''img2''
      = Inr (bind_keywords [''x''] (\<lambda>h x ps. (Inr x, h)))"
    by (simp add: get_target_function_def targets_def add_targets_def new_transform_def)
  with add_targets_replaces[of "new_transform NoOp 7 False (1 / 2)" "[''img2'' \<mapsto> ''image'']"
      "[''m2'' \<mapsto> ''mask'']" "''img2''", THEN conjunct2]
  show ?thesis by simp
qed

section \<open>Targets that are not registered\<close>

lemma unregistered_step:
  assumes "targets t = Inr m"
    and "m (case additional_targets t key of Some c \<Rightarrow> c | None \<Rightarrow> key) = None"
  shows "call_loop t kwargs params ((key, v) # items) res h
       = (if v \<noteq> VNone then
            (case dict_select kwargs (case target_dependence t key of Some ks \<Rightarrow> ks | None \<Rightarrow> []) [] of
               Inl e \<Rightarrow> (Inl e, h)
             | Inr deps \<Rightarrow>
                 if collides [''x''] (dict_update params deps) then (Inl TypeError, h)
                 else call_loop t kwargs params items (dict_set res key v) h)
          else call_loop t kwargs params items (dict_set res key v) h)"
  using assms by (auto simp: get_target_function_def bind_keywords_def split: sum.splits)

text \<open>
  \<^bold>\<open>C8\<close>, as stated, fails at two inputs, both for a subclass of \<open>ImageOnlyTransform\<close> whose
  \<open>apply\<close> returns the image. A bundle with the keys \<open>image\<close> and \<open>params\<close>: the name
  \<open>params\<close> is not registered, and the call raises \<open>TypeError\<close> in \<open>update_params\<close>. A
  bundle with the keys \<open>image\<close> and \<open>mask\<close>, when \<open>get_params\<close> returns \<open>{'x': 3}\<close>:
  \<open>mask\<close> is not registered, and the fallback \<open>lambda x, **p: x\<close>, called with the keyword
  \<open>x\<close>, raises \<open>TypeError\<close>.
\<close>

theorem unregistered_target_can_fail:
  "call ((new_transform ImageOnlyTransform 5 True (1 / 2))\<lparr>apply_impl := (\<lambda>h img ps. (Inr img, h))\<rparr>)
     (9 / 10) False [(''image'', VRef 0), (''params'', VInt 5)]
     [\<lparr>cls = NdArray, shape = Some [4, 6], payload = Pixels [1, 2], transforms = NoAttr\<rparr>]
   = (Inl TypeError,
      [\<lparr>cls = NdArray, shape = Some [4, 6], payload = Pixels [1, 2], transforms = NoAttr\<rparr>])
   \<and> call ((new_transform ImageOnlyTransform 5 True (1 / 2))
            \<lparr>apply_impl := (\<lambda>h img ps. (Inr img, h)), get_params := [(''x'', VInt 3)]\<rparr>)
     (9 / 10) False [(''image'', VRef 0), (''mask'', VRef 1)]
     [\<lparr>cls = NdArray, shape = Some [4, 6], payload = Pixels [1, 2], transforms = NoAttr\<rparr>,
      \<lparr>cls = NdArray, shape = Some [4, 6], payload = Pixels [0, 1], transforms = NoAttr\<rparr>]
   = (Inl TypeError,
      [\<lparr>cls = NdArray, shape = Some [4, 6], payload = Pixels [1, 2], transforms = NoAttr\<rparr>,
       \<lparr>cls = NdArray, shape = Some [4, 6], payload = Pixels [0, 1], transforms = NoAttr\<rparr>])"
  by (simp add: call_def shared_params_def update_params_def collides_def deref_def
      get_target_function_def targets_def apply'_def bind_keywords_def new_transform_def)

text \<open>
  \<^bold>\<open>C8\<close>, amended: let the canonical name of \<open>key\<close> (its alias, or the key itself) be absent
  from \<open>targets\<close>. In an active call in which the parameters have been computed and the
  keys before \<open>key\<close> processed without an exception, if the dependencies declared for
  \<open>key\<close> are in the bundle and no parameter passed on is named \<open>x\<close>, the step for \<open>key\<close>
  does not raise and does not touch the store, so it attaches no history: the call goes on
  with the keys after \<open>key\<close>, from the same store, with the artifact itself stored under
  \<open>key\<close>. Every bundle such a call returns holds the artifact unchanged under \<open>key\<close>.
\<close>

theorem unregistered_target_passes_through:
  assumes "targets t = Inr m"
    and "m (case additional_targets t key of Some c \<Rightarrow> c | None \<Rightarrow> key) = None"
    and "r < p t \<or> always_apply t \<or> force_apply"
    and "kwargs = earlier @ (key, v) # later" and "key \<notin> fst ` set later"
    and "shared_params t h kwargs = (Inr params, h0)"
    and "call_loop t kwargs params earlier [] h0 = (Inr res1, h1)"
    and "dict_select kwargs (case target_dependence t key of Some ks \<Rightarrow> ks | None \<Rightarrow> []) [] = Inr deps"
    and "\<not> collides [''x''] (dict_update params deps)"
  shows "call t r force_apply kwargs h = call_loop t kwargs params later (dict_set res1 key v) h1
       \<and> (call t r force_apply kwargs h = (Inr out, h') \<longrightarrow> map_of out key = Some v)"
proof -
  have "call t r force_apply kwargs h = call_loop t kwargs params ((key, v) # later) res1 h1"
    by (simp add: active_call[OF assms(3,4)] assms(6,7))
  also have "\<dots> = call_loop t kwargs params later (dict_set res1 key v) h1"
    by (subst unregistered_step[OF assms(1,2)]) (simp add: assms(8,9))
  finally have eq: "call t r force_apply kwargs h
      = call_loop t kwargs params later (dict_set res1 key v) h1" .
  moreover have "map_of out key = Some v" if "call t r force_apply kwargs h = (Inr out, h')"
    using call_loop_other_keys[OF that[unfolded eq] assms(5)] by (simp add: dict_set_map_of)
  ultimately show ?thesis by blast
qed

theorem unregistered_target_passes_through_witness:
  "call ((new_transform ImageOnlyTransform 5 True (1 / 2))\<lparr>apply_impl := (\<lambda>h img ps. (Inr img, h))\<rparr>)
     (9 / 10) False [(''image'', VRef 0), (''mask'', VRef 1)]
     [\<lparr>cls = TransformsArray, shape = Some [4, 6], payload = Pixels [1, 2], transforms = History []\<rparr>,
      \<lparr>cls = TransformsArray, shape = Some [4, 6], payload = Pixels [0, 1], transforms = History []\<rparr>]
   = (Inr [(''image'', VRef 0), (''mask'', VRef 1)],
     [\<lparr>cls = TransformsArray, shape = Some [4, 6], payload = Pixels [1, 2], transforms = History []\<rparr>,
      \<lparr>cls = TransformsArray, shape = Some [4, 6], payload = Pixels [0, 1], transforms = History []\<rparr>])"
proof -
  let ?t = "(new_transform ImageOnlyTransform 5 True (1 / 2))\<lparr>apply_impl := (\<lambda>h img ps. (Inr img, h))\<rparr>"
  let ?kw = "[(''image'', VRef 0), (''mask'', VRef 1)]"
  let ?ps = "[(''cols'', VInt 6), (''rows'', VInt 4)]"
  let ?h = "[\<lparr>cls = TransformsArray, shape = Some [4, 6], payload = Pixels [1, 2], transforms = History []\<rparr>,
      \<lparr>cls = TransformsArray, shape = Some [4, 6], payload = Pixels [0, 1], transforms = History []\<rparr>]"
  have tg: "targets ?t = Inr (map_of [(''image'', apply' ?t)])"
    by (simp add: targets_def new_transform_def)
  have un: "map_of [(''image'', apply' ?t)]
      (case additional_targets ?t ''mask'' of Some c \<Rightarrow> c | None \<Rightarrow> ''mask'') = None"
    by (simp add: new_transform_def)
  have act: "9 / 10 < p ?t \<or> always_apply ?t \<or> False" by (simp add: new_transform_def)
  have sp: "?kw = [(''image'', VRef 0)] @ (''mask'', VRef 1) # []" by simp
  have notin: "''mask'' \<notin> fst ` set []" by simp
  have pa: "shared_params ?t ?h ?kw = (Inr ?ps, ?h)"
    by (simp add: shared_params_def update_params_def collides_def deref_def new_transform_def)
  have ea: "call_loop ?t ?kw ?ps [(''image'', VRef 0)] [] ?h = (Inr [(''image'', VRef 0)], ?h)"
    by (simp add: get_target_function_def targets_def apply'_def collides_def new_transform_def)
  have ds: "dict_select ?kw (case target_dependence ?t ''mask'' of Some ks \<Rightarrow> ks | None \<Rightarrow> []) [] = Inr []"
    by (simp add: new_transform_def)
  have nx: "\<not> collides [''x''] (dict_update ?ps [])" by (simp add: collides_def)
  from unregistered_target_passes_through[OF tg un act sp notin pa ea ds nx, THEN conjunct1]
  show ?thesis by simp
qed

section \<open>Provenance on an active call\<close>

text \<open>
  \<^bold>\<open>C1\<close>, at a concrete input. \<open>NoOp(always_apply=True)\<close>, with identity 7, is called on an
  \<open>image\<close> that is a \<open>TransformsArray\<close> with an empty history (object 0) and on \<open>masks\<close>
  that is a \<open>TransformsList\<close> with an empty history (object 1) holding one mask
  (object 2). The history of the image grows by the entry of this call. The \<open>masks\<close> entry
  of \<open>targets\<close> is \<open>apply_to_masks\<close>, which does not call \<open>keep_memory\<close>: the history of
  object 1 stays empty, and the bundle returns under \<open>masks\<close> a new plain list (object 3)
  without the attribute \<open>transforms\<close>.
\<close>

theorem masks_get_no_history:
  "call (new_transform NoOp 7 True (1 / 2)) (9 / 10) False
     [(''image'', VRef 0), (''masks'', VRef 1)]
     [\<lparr>cls = TransformsArray, shape = Some [4, 6], payload = Pixels [1, 2], transforms = History []\<rparr>,
      \<lparr>cls = TransformsList, shape = None, payload = Elems [VRef 2], transforms = History []\<rparr>,
      \<lparr>cls = NdArray, shape = Some [4, 6], payload = Pixels [0, 1], transforms = NoAttr\<rparr>]
   = (Inr [(''image'', VRef 0), (''masks'', VRef 3)],
     [\<lparr>cls = TransformsArray, shape = Some [4, 6], payload = Pixels [1, 2],
        transforms = History [Entry 7 [(''cols'', VInt 6), (''rows'', VInt 4)]]\<rparr>,
      \<lparr>cls = TransformsList, shape = None, payload = Elems [VRef 2], transforms = History []\<rparr>,
      \<lparr>cls = NdArray, shape = Some [4, 6], payload = Pixels [0, 1], transforms = NoAttr\<rparr>,
      \<lparr>cls = PyList, shape = None, payload = Elems [VRef 2], transforms = NoAttr\<rparr>])"
  by (simp add: call_def shared_params_def update_params_def new_transform_def deref_def
      get_target_function_def targets_def apply_priv_def keep_memory_def apply'_def
      apply_to_masks_def apply_to_mask_def alloc_def new_list_def collides_def bind_keywords_def)

text \<open>
  \<^bold>\<open>C2\<close>, at a concrete input. \<open>NoOp(always_apply=True)\<close> is called on an \<open>image\<close> that is a
  plain \<open>numpy.ndarray\<close> (object 0). \<open>keep_memory\<close> binds its local variable to a new
  \<open>TransformsArray\<close> (object 1) and appends the entry there; \<open>_apply\<close> then passes the
  array it was given to \<open>apply\<close>. The bundle returns object 0, which has no attribute
  \<open>transforms\<close>, and nothing in the bundle refers to object 1.
\<close>

theorem wrapper_history_is_lost:
  "call (new_transform NoOp 7 True (1 / 2)) (9 / 10) False
     [(''image'', VRef 0)]
     [\<lparr>cls = NdArray, shape = Some [4, 6], payload = Pixels [1, 2], transforms = NoAttr\<rparr>]
   = (Inr [(''image'', VRef 0)],
     [\<lparr>cls = NdArray, shape = Some [4, 6], payload = Pixels [1, 2], transforms = NoAttr\<rparr>,
      \<lparr>cls = TransformsArray, shape = Some [4, 6], payload = Pixels [1, 2],
        transforms = History [Entry 7 [(''cols'', VInt 6), (''rows'', VInt 4)]]\<rparr>])"
  by (simp add: call_def shared_params_def update_params_def new_transform_def deref_def
      get_target_function_def targets_def apply_priv_def keep_memory_def apply'_def alloc_def
      TransformsArray_new_def collides_def)


end
